theory Spec2Isabelle
  imports Main "HOL-Library.Sublist" "HOL-Library.AList" "HOL-Library.Monad_Syntax"
begin

section \<open>Python strings\<close>

text \<open>
  A Python \<open>str\<close> is a sequence of Unicode code points, so a character is modelled by
  its code point and a string by a list of code points; \<open>len\<close> is \<open>length\<close> and counts
  code points, not bytes. String literals of the source are ASCII and are written
  \<open>of_ascii ''...''\<close>.
\<close>

type_synonym pychar = nat
type_synonym pystr = "pychar list"

definition of_ascii :: "string \<Rightarrow> pystr" where
  "of_ascii s = map of_char s"

text \<open>
  The character classes of Python (\<open>str.isspace\<close>, \<open>str.isalnum\<close>, the decimal digits
  accepted by \<open>\d\<close> and \<open>int\<close>, and the case mapping of \<open>str.lower\<close>) come from the
  interpreter's Unicode database, which is not part of the repository. On ASCII they
  are written out below; beyond ASCII they are read from a parameter \<open>U\<close>, so every
  theorem holds for whatever database the interpreter ships. \<open>str.lower\<close> is not a
  character-wise map in general (one code point may become two, and capital sigma
  depends on its context), hence \<open>db_lower\<close> acts on whole strings.
\<close>

record unicode_db =
  db_isspace :: "pychar \<Rightarrow> bool"
  db_isalnum :: "pychar \<Rightarrow> bool"
  db_decimal :: "pychar \<Rightarrow> nat option"
  db_lower :: "pystr \<Rightarrow> pystr"

definition isspace :: "unicode_db \<Rightarrow> pychar \<Rightarrow> bool" where
  "isspace U c = (if c < 128 then (9 \<le> c \<and> c \<le> 13) \<or> (28 \<le> c \<and> c \<le> 32) else db_isspace U c)"

definition isalnum :: "unicode_db \<Rightarrow> pychar \<Rightarrow> bool" where
  "isalnum U c =
     (if c < 128 then (48 \<le> c \<and> c \<le> 57) \<or> (65 \<le> c \<and> c \<le> 90) \<or> (97 \<le> c \<and> c \<le> 122)
      else db_isalnum U c)"

definition decimal :: "unicode_db \<Rightarrow> pychar \<Rightarrow> nat option" where
  "decimal U c = (if c < 128 then (if 48 \<le> c \<and> c \<le> 57 then Some (c - 48) else None) else db_decimal U c)"

definition isdecimal :: "unicode_db \<Rightarrow> pychar \<Rightarrow> bool" where
  "isdecimal U c = (decimal U c \<noteq> None)"

definition ascii_lower :: "pychar \<Rightarrow> pychar" where
  "ascii_lower c = (if 65 \<le> c \<and> c \<le> 90 then c + 32 else c)"

definition lower :: "unicode_db \<Rightarrow> pystr \<Rightarrow> pystr" where
  "lower U s = (if list_all (\<lambda>c. c < 128) s then map ascii_lower s else db_lower U s)"

text \<open>\<open>s.strip()\<close> removes the whitespace at both ends.\<close>

definition strip :: "unicode_db \<Rightarrow> pystr \<Rightarrow> pystr" where
  "strip U s = rev (dropWhile (isspace U) (rev (dropWhile (isspace U) s)))"

text \<open>
  \<open>s.split()\<close> without a separator: skip a run of whitespace, stop at the end of the
  string, otherwise cut the token that runs up to the next whitespace, and repeat.
\<close>

function split :: "unicode_db \<Rightarrow> pystr \<Rightarrow> pystr list" where
  "split U s =
     (case dropWhile (isspace U) s of
        [] \<Rightarrow> []
      | c # cs \<Rightarrow>
          takeWhile (\<lambda>x. \<not> isspace U x) (c # cs)
            # split U (dropWhile (\<lambda>x. \<not> isspace U x) (c # cs)))"
  by pat_completeness auto
termination
proof (relation "measure (\<lambda>(U, s). length s)")
  show "wf (measure (\<lambda>(U, s). length s))" by simp
next
  fix U :: unicode_db and s :: pystr and c cs
  assume d: "dropWhile (isspace U) s = c # cs"
  have "length (dropWhile (\<lambda>x. \<not> isspace U x) cs) \<le> length cs"
    by (rule length_dropWhile_le)
  moreover have "length (c # cs) \<le> length s"
    using length_dropWhile_le [of "isspace U" s] d by simp
  moreover have "\<not> isspace U c"
    using hd_dropWhile [of "isspace U" s] d by simp
  ultimately show "((U, dropWhile (\<lambda>x. \<not> isspace U x) (c # cs)), (U, s)) \<in> measure (\<lambda>(U, s). length s)"
    by simp
qed

declare split.simps [simp del]

text \<open>
  \<open>int(s)\<close> on a string of decimal digits, as the group \<open>(\d+)\<close> delivers it. A string
  that is empty or holds another character is a \<open>ValueError\<close> here; the signs, blanks
  and underscores that \<open>int\<close> also accepts never reach it from this program. Python
  integers are unbounded, but the conversion from a string is not: the interpreter
  raises \<open>ValueError\<close> when the string has more digits than its limit, which is 4300
  unless the interpreter is started or set up otherwise. The limit counts every digit
  character, leading zeros included.
\<close>

datatype py_error = ValueError

definition int_max_str_digits :: nat where
  "int_max_str_digits = 4300"

definition py_int :: "unicode_db \<Rightarrow> pystr \<Rightarrow> py_error + int" where
  "py_int U s =
     (if s \<noteq> [] \<and> list_all (isdecimal U) s
      then (if int_max_str_digits < length s
            then Inl ValueError
            else Inr (foldl (\<lambda>acc c. acc * 10 + int (the (decimal U c))) 0 s))
      else Inl ValueError)"

section \<open>The analyzer (app/services/analyzer.py)\<close>

text \<open>
  The dictionaries of the source keep their insertion order, so a \<open>dict\<close> is an
  association list: \<open>d[k] = v\<close> is \<open>AList.update k v d\<close> (the value is replaced in
  place when the key is there, the pair is appended otherwise), \<open>d.get(k)\<close> is
  \<open>map_of d k\<close> and \<open>d.values()\<close> is \<open>map snd d\<close>.

  The dictionaries with a fixed set of keys are records. Their fields carry a prefix,
  since \<open>id\<close>, \<open>value\<close> and \<open>length\<close> are taken in Isabelle and the two dictionaries of
  the program share key names.
\<close>

record properties =
  p_length :: int
  p_is_palindrome :: bool
  p_unique_characters :: int
  p_word_count :: int
  p_sha256_hash :: pystr
  p_character_frequency_map :: "(pychar \<times> int) list"

record string_obj =
  r_id :: pystr
  r_value :: pystr
  r_properties :: properties
  r_created_at :: pystr

text \<open>
  \<open>sha256_hash\<close> hands the UTF-8 bytes of the string to \<open>hashlib\<close>; the digest function
  \<open>hexdigest\<close> (encoding included) is a parameter.
\<close>

definition sha256_hash :: "(pystr \<Rightarrow> pystr) \<Rightarrow> pystr \<Rightarrow> pystr" where
  "sha256_hash hexdigest value = hexdigest value"

text \<open>The loop \<open>for char in value: freq[char] = freq.get(char, 0) + 1\<close>.\<close>

fun freq_loop :: "(pychar \<times> int) list \<Rightarrow> pystr \<Rightarrow> (pychar \<times> int) list" where
  "freq_loop freq [] = freq"
| "freq_loop freq (char # rest) =
     freq_loop (AList.update char ((case map_of freq char of None \<Rightarrow> 0 | Some n \<Rightarrow> n) + 1) freq) rest"

definition character_frequency_map :: "pystr \<Rightarrow> (pychar \<times> int) list" where
  "character_frequency_map value = freq_loop [] value"

text \<open>
  \<open>analyze_string\<close>; the clock reading \<open>datetime.now(timezone.utc).isoformat()\<close> is
  the parameter \<open>now\<close>.
\<close>

definition analyze_string :: "unicode_db \<Rightarrow> (pystr \<Rightarrow> pystr) \<Rightarrow> pystr \<Rightarrow> pystr \<Rightarrow> string_obj" where
  "analyze_string U hexdigest now value =
     (let id' = sha256_hash hexdigest value;
          len = int (length value);
          normalized_value = lower U value;
          cleaned_value = filter (isalnum U) normalized_value;
          is_palindrome = (cleaned_value = rev cleaned_value);
          unique_characters = int (card (set value));
          word_count = int (length (split U value));
          freq_map = character_frequency_map value;
          created_at = now;
          props = \<lparr>p_length = len, p_is_palindrome = is_palindrome,
                   p_unique_characters = unique_characters, p_word_count = word_count,
                   p_sha256_hash = id', p_character_frequency_map = freq_map\<rparr>
      in \<lparr>r_id = id', r_value = value, r_properties = props, r_created_at = created_at\<rparr>)"

section \<open>The query parser (app/utils/nlp_parser.py)\<close>

text \<open>
  The dictionary \<open>filters\<close>, and the five optional query parameters of
  \<open>get_all_strings\<close>: a key that is absent (a parameter that is \<open>None\<close>) is \<open>None\<close>.
\<close>

record filters =
  f_is_palindrome :: "bool option"
  f_min_length :: "int option"
  f_max_length :: "int option"
  f_word_count :: "int option"
  f_contains_character :: "pystr option"

definition empty_filters :: filters where
  "empty_filters =
     \<lparr>f_is_palindrome = None, f_min_length = None, f_max_length = None,
      f_word_count = None, f_contains_character = None\<rparr>"

text \<open>
  \<open>x in s\<close> on strings is \<open>sublist x s\<close>: \<open>x\<close> occurs in \<open>s\<close> as a contiguous block.

  \<open>re.search\<close> tries the start positions from left to right and, at each, the
  alternatives of the pattern in their order of priority (a greedy quantifier tries
  its longest match first). A pattern is therefore a function from the text at a
  position to the list of its matches in that order, the first one being what the
  engine returns; a match is the text that is left, or the captured group for the last
  item of the pattern.

  \<open>longer than (\d+)\<close>: nothing follows the greedy \<open>\d+\<close>, so the group is the whole
  run of digits.
\<close>

definition longer_than_at :: "unicode_db \<Rightarrow> pystr \<Rightarrow> pystr option" where
  "longer_than_at U s =
     (if prefix (of_ascii ''longer than '') s
      then (case takeWhile (isdecimal U) (drop 12 s) of [] \<Rightarrow> None | d # ds \<Rightarrow> Some (d # ds))
      else None)"

fun search_longer_than :: "unicode_db \<Rightarrow> pystr \<Rightarrow> pystr option" where
  "search_longer_than U [] = longer_than_at U []"
| "search_longer_than U (c # cs) =
     (case longer_than_at U (c # cs) of
        Some g \<Rightarrow> Some g
      | None \<Rightarrow> search_longer_than U cs)"

text \<open>\<open>contain(?:s|ing)?\s+(?:the\s+)?(?:letter\s+)?([a-z])\<close>, piece by piece.\<close>

definition re_lit :: "string \<Rightarrow> pystr \<Rightarrow> pystr list" where
  "re_lit l s = (if prefix (of_ascii l) s then [drop (length l) s] else [])"

fun re_ws_plus :: "unicode_db \<Rightarrow> pystr \<Rightarrow> pystr list" where
  "re_ws_plus U [] = []"
| "re_ws_plus U (c # cs) = (if isspace U c then re_ws_plus U cs @ [cs] else [])"

definition re_opt :: "(pystr \<Rightarrow> pystr list) \<Rightarrow> pystr \<Rightarrow> pystr list" where
  "re_opt p s = p s @ [s]"

definition re_a_to_z :: "pystr \<Rightarrow> pystr list" where
  "re_a_to_z s = (case s of [] \<Rightarrow> [] | c # cs \<Rightarrow> if 97 \<le> c \<and> c \<le> 122 then [[c]] else [])"

definition letter_at :: "unicode_db \<Rightarrow> pystr \<Rightarrow> pystr list" where
  "letter_at U s =
     do {
       s1 \<leftarrow> re_lit ''contain'' s;
       s2 \<leftarrow> re_opt (\<lambda>t. re_lit ''s'' t @ re_lit ''ing'' t) s1;
       s3 \<leftarrow> re_ws_plus U s2;
       s4 \<leftarrow> re_opt (\<lambda>t. do { t1 \<leftarrow> re_lit ''the'' t; re_ws_plus U t1 }) s3;
       s5 \<leftarrow> re_opt (\<lambda>t. do { t1 \<leftarrow> re_lit ''letter'' t; re_ws_plus U t1 }) s4;
       re_a_to_z s5
     }"

fun search_letter :: "unicode_db \<Rightarrow> pystr \<Rightarrow> pystr option" where
  "search_letter U [] = (case letter_at U [] of g # _ \<Rightarrow> Some g | [] \<Rightarrow> None)"
| "search_letter U (c # cs) =
     (case letter_at U (c # cs) of
        g # _ \<Rightarrow> Some g
      | [] \<Rightarrow> search_letter U cs)"

text \<open>
  \<open>parse_natural_language\<close>. The only call that can raise is \<open>int\<close>, so the result is
  a sum with the error on the left; an exception leaves the function at once, and the
  tests that follow are not run.
\<close>

definition parse_natural_language :: "unicode_db \<Rightarrow> pystr \<Rightarrow> py_error + filters" where
  "parse_natural_language U query =
     (let query_lower = strip U (lower U query);
          filters = empty_filters;
          filters =
            (if list_ex (\<lambda>word. sublist word query_lower)
                  [of_ascii ''palindrom'', of_ascii ''palindromic'']
             then filters\<lparr>f_is_palindrome := Some True\<rparr>
             else filters);
          filters =
            (if sublist (of_ascii ''single word'') query_lower
                \<or> sublist (of_ascii ''one word'') query_lower
             then filters\<lparr>f_word_count := Some 1\<rparr>
             else if sublist (of_ascii ''two word'') query_lower
             then filters\<lparr>f_word_count := Some 2\<rparr>
             else filters);
          length_match = search_longer_than U query_lower
      in case (case length_match of
                 None \<Rightarrow> Inr filters
               | Some g \<Rightarrow>
                   (case py_int U g of
                      Inl e \<Rightarrow> Inl e
                    | Inr n \<Rightarrow> Inr (filters\<lparr>f_min_length := Some (n + 1)\<rparr>))) of
           Inl e \<Rightarrow> Inl e
         | Inr filters \<Rightarrow>
             (let letter_match = search_letter U query_lower;
                  filters =
                    (case letter_match of
                       None \<Rightarrow> filters
                     | Some g \<Rightarrow> filters\<lparr>f_contains_character := Some g\<rparr>);
                  filters =
                    (if sublist (of_ascii ''first vowel'') query_lower
                     then filters\<lparr>f_contains_character := Some (of_ascii ''a'')\<rparr>
                     else filters)
              in Inr filters))"

text \<open>
  A database that knows no character beyond ASCII, for evaluating the definitions
  at ASCII inputs.
\<close>

definition ascii_db :: unicode_db where
  "ascii_db =
     \<lparr>db_isspace = (\<lambda>c. False), db_isalnum = (\<lambda>c. False),
      db_decimal = (\<lambda>c. None), db_lower = (\<lambda>s. s)\<rparr>"

section \<open>The store (app/models/file_storage.py)\<close>

text \<open>
  \<open>FileStorage\<close> keeps one JSON object in a file; every method reads the whole
  dictionary with \<open>all\<close> and the writing ones dump it back. The state of the store is
  that dictionary, from key to stored object, and a method that writes returns the
  new state. \<open>json.load\<close> is taken to read back the dictionary that \<open>json.dump\<close>
  wrote, with its keys in the order of insertion.
\<close>

type_synonym storage = "(pystr \<times> string_obj) list"

definition save_object :: "pystr \<Rightarrow> string_obj \<Rightarrow> storage \<Rightarrow> storage" where
  "save_object key obj data = AList.update key obj data"

definition get_object :: "pystr \<Rightarrow> storage \<Rightarrow> string_obj option" where
  "get_object key data = map_of data key"

definition exists :: "pystr \<Rightarrow> storage \<Rightarrow> bool" where
  "exists key data = (key \<in> fst ` set data)"

definition delete_object :: "pystr \<Rightarrow> storage \<Rightarrow> storage" where
  "delete_object key data = (if key \<in> fst ` set data then AList.delete key data else data)"

section \<open>The endpoints (app/api.py)\<close>

datatype http_exception = HTTPException nat string

text \<open>
  \<open>create_string\<close>: the response (or the exception raised) and the store afterwards.
\<close>

definition create_string ::
  "unicode_db \<Rightarrow> (pystr \<Rightarrow> pystr) \<Rightarrow> pystr \<Rightarrow> storage \<Rightarrow> pystr \<Rightarrow> (http_exception + string_obj) \<times> storage" where
  "create_string U hexdigest now data value =
     (let string_id = sha256_hash hexdigest value
      in if exists string_id data
         then (Inl (HTTPException 409 ''String already exists in the system''), data)
         else (let analyzed_data = analyze_string U hexdigest now value
               in (Inr analyzed_data, save_object string_id analyzed_data data)))"

definition get_string ::
  "(pystr \<Rightarrow> pystr) \<Rightarrow> storage \<Rightarrow> pystr \<Rightarrow> http_exception + string_obj option" where
  "get_string hexdigest data string_value =
     (let string_id = sha256_hash hexdigest string_value
      in if \<not> exists string_id data
         then Inl (HTTPException 404 ''String does not exist in the system'')
         else Inr (get_object string_id data))"

definition delete_string ::
  "(pystr \<Rightarrow> pystr) \<Rightarrow> storage \<Rightarrow> pystr \<Rightarrow> (http_exception + unit) \<times> storage" where
  "delete_string hexdigest data string_value =
     (let string_id = sha256_hash hexdigest string_value
      in if \<not> exists string_id data
         then (Inl (HTTPException 404 ''String does not exist in the system''), data)
         else (Inr (), delete_object string_id data))"

text \<open>
  \<open>get_all_strings\<close>: the five query parameters arrive as a \<open>filters\<close> record. The
  loop runs over \<open>list(storage.all().values())\<close> and appends to \<open>filtered_strings\<close>
  every object that no test sends to \<open>continue\<close>. On well-typed stored objects none
  of the tests raises, so the handler of the \<open>try\<close> is never entered.
\<close>

fun get_all_strings_loop :: "filters \<Rightarrow> string_obj list \<Rightarrow> string_obj list \<Rightarrow> string_obj list" where
  "get_all_strings_loop q filtered_strings [] = filtered_strings"
| "get_all_strings_loop q filtered_strings (string_obj # rest) =
     (let props = r_properties string_obj
      in if (case f_is_palindrome q of None \<Rightarrow> False | Some b \<Rightarrow> p_is_palindrome props \<noteq> b)
         then get_all_strings_loop q filtered_strings rest
         else if (case f_min_length q of None \<Rightarrow> False | Some n \<Rightarrow> p_length props < n)
         then get_all_strings_loop q filtered_strings rest
         else if (case f_max_length q of None \<Rightarrow> False | Some n \<Rightarrow> p_length props > n)
         then get_all_strings_loop q filtered_strings rest
         else if (case f_word_count q of None \<Rightarrow> False | Some n \<Rightarrow> p_word_count props \<noteq> n)
         then get_all_strings_loop q filtered_strings rest
         else if (case f_contains_character q of
                    None \<Rightarrow> False
                  | Some c \<Rightarrow> \<not> sublist c (r_value string_obj))
         then get_all_strings_loop q filtered_strings rest
         else get_all_strings_loop q (filtered_strings @ [string_obj]) rest)"

record response =
  data :: "string_obj list"
  count :: int
  filters_applied :: filters

definition get_all_strings :: "storage \<Rightarrow> filters \<Rightarrow> response" where
  "get_all_strings store q =
     (let all_strings = map snd store;
          filtered_strings = get_all_strings_loop q [] all_strings
      in \<lparr>data = filtered_strings, count = int (length filtered_strings), filters_applied = q\<rparr>)"

text \<open>
  The filter predicate as the specification words it: every field that is present is
  one condition, and the conditions are joined by \<open>and\<close>.
\<close>

definition matches_spec :: "string_obj \<Rightarrow> filters \<Rightarrow> bool" where
  "matches_spec record predicate =
     ((case f_is_palindrome predicate of
         None \<Rightarrow> True
       | Some b \<Rightarrow> p_is_palindrome (r_properties record) = b)
      \<and> (case f_min_length predicate of
            None \<Rightarrow> True
          | Some n \<Rightarrow> p_length (r_properties record) \<ge> n)
      \<and> (case f_max_length predicate of
            None \<Rightarrow> True
          | Some n \<Rightarrow> p_length (r_properties record) \<le> n)
      \<and> (case f_word_count predicate of
            None \<Rightarrow> True
          | Some n \<Rightarrow> p_word_count (r_properties record) = n)
      \<and> (case f_contains_character predicate of
            None \<Rightarrow> True
          | Some c \<Rightarrow> sublist c (r_value record)))"


text \<open>
  The group that the search for \<open>longer than (\d+)\<close> finds has more digits than \<open>int\<close>
  converts.
\<close>

definition digit_limit_exceeded :: "unicode_db \<Rightarrow> pystr \<Rightarrow> bool" where
  "digit_limit_exceeded U q =
     (case search_longer_than U q of
        None \<Rightarrow> False
      | Some g \<Rightarrow> int_max_str_digits < length g)"



text \<open>
  The tokens of a string as the specification counts them: a maximal run of characters
  that are not whitespace starts at every index that holds such a character and is
  the first index or comes after a whitespace character.
\<close>

definition token_starts :: "unicode_db \<Rightarrow> pystr \<Rightarrow> nat list" where
  "token_starts U s =
     filter (\<lambda>i. \<not> isspace U (s ! i) \<and> (i = 0 \<or> isspace U (s ! (i - 1)))) [0..<length s]"

text \<open>
  The same count in one pass from left to right, \<open>b\<close> telling whether a token may
  start at the head of the list (used in the proofs only).
\<close>

fun count_starts :: "unicode_db \<Rightarrow> bool \<Rightarrow> pystr \<Rightarrow> nat" where
  "count_starts U b [] = 0"
| "count_starts U b (c # cs) =
     (if \<not> isspace U c \<and> b then 1 else 0) + count_starts U (isspace U c) cs"

section \<open>Properties of the analyzer\<close>

text \<open>
  C1. \<open>is_palindrome\<close> holds exactly when the lower-cased string with every
  non-alphanumeric character discarded equals its own reverse. In particular it holds
  when that cleaned string is empty, which is the case for every string made of ASCII
  characters that are not alphanumeric (blanks, punctuation), the empty string
  included.
\<close>

theorem is_palindrome_cleaned:
  "(p_is_palindrome (r_properties (analyze_string U hexdigest now s))
      \<longleftrightarrow> filter (isalnum U) (lower U s) = rev (filter (isalnum U) (lower U s)))
   \<and> (filter (isalnum U) (lower U s) = []
        \<longrightarrow> p_is_palindrome (r_properties (analyze_string U hexdigest now s)))
   \<and> (list_all (\<lambda>c. c < 128 \<and> \<not> isalnum U c) s
        \<longrightarrow> p_is_palindrome (r_properties (analyze_string U hexdigest now s)))"
proof -
  have pal: "p_is_palindrome (r_properties (analyze_string U hexdigest now s))
      \<longleftrightarrow> filter (isalnum U) (lower U s) = rev (filter (isalnum U) (lower U s))"
    by (simp add: analyze_string_def Let_def)
  have "filter (isalnum U) (lower U s) = []" if a: "list_all (\<lambda>c. c < 128 \<and> \<not> isalnum U c) s"
  proof -
    from a have "list_all (\<lambda>c. c < 128) s" by (simp add: list_all_iff)
    then have l: "lower U s = map ascii_lower s" by (simp add: lower_def)
    have "\<not> isalnum U (ascii_lower c)" if "c \<in> set s" for c
      using a that by (auto simp: list_all_iff isalnum_def ascii_lower_def)
    then show ?thesis unfolding l by (simp add: filter_empty_conv)
  qed
  with pal show ?thesis by simp
qed

theorem is_palindrome_cleaned_witness:
  "filter (isalnum ascii_db) (lower ascii_db (of_ascii '' , !'')) = []
   \<and> list_all (\<lambda>c. c < 128 \<and> \<not> isalnum ascii_db c) (of_ascii '' , !'')
   \<and> p_is_palindrome (r_properties (analyze_string ascii_db (\<lambda>s. s) [] (of_ascii '' , !'')))"
  using is_palindrome_cleaned [of ascii_db "\<lambda>s. s" "[]" "of_ascii '' , !''"]
  by (simp add: of_ascii_def isalnum_def lower_def ascii_lower_def)

subsection \<open>The frequency map\<close>

lemma sum_update:
  "distinct (map fst al) \<Longrightarrow>
   sum_list (map snd (AList.update k v al)) =
     sum_list (map snd al) - (case map_of al k of None \<Rightarrow> 0 | Some n \<Rightarrow> n) + (v::int)"
proof (induction al)
  case Nil
  then show ?case by simp
next
  case (Cons p ps)
  show ?case
  proof (cases "fst p = k")
    case True
    then show ?thesis by (cases p) simp
  next
    case False
    with Cons show ?thesis by (cases p) simp
  qed
qed

lemma freq_loop_inv:
  "distinct (map fst freq) \<Longrightarrow>
   distinct (map fst (freq_loop freq s))
   \<and> fst ` set (freq_loop freq s) = fst ` set freq \<union> set s
   \<and> sum_list (map snd (freq_loop freq s)) = sum_list (map snd freq) + int (length s)"
proof (induction s arbitrary: freq)
  case Nil
  then show ?case by simp
next
  case (Cons c cs)
  let ?f = "AList.update c ((case map_of freq c of None \<Rightarrow> 0 | Some n \<Rightarrow> n) + 1) freq"
  have d: "distinct (map fst ?f)" using Cons.prems by (rule distinct_update)
  have k: "fst ` set ?f = insert c (fst ` set freq)" by (simp add: dom_update)
  have s: "sum_list (map snd ?f) = sum_list (map snd freq) + 1"
    using Cons.prems by (simp add: sum_update)
  from Cons.IH [OF d] k s show ?case by auto
qed

lemma freq_loop_count:
  "map_of (freq_loop freq s) c =
     (if c \<in> set s \<or> c \<in> fst ` set freq
      then Some ((case map_of freq c of None \<Rightarrow> 0 | Some n \<Rightarrow> n) + int (count_list s c))
      else None)"
proof (induction s arbitrary: freq)
  case Nil
  then show ?case by (auto simp: map_of_eq_None_iff split: option.splits)
next
  case (Cons a s)
  then show ?case
    by (auto simp: update_conv' dom_update map_of_eq_None_iff split: option.splits)
qed

text \<open>Every character of the string is mapped to its number of occurrences.\<close>

lemma character_frequency_map_count:
  "map_of (character_frequency_map s) c =
     (if c \<in> set s then Some (int (count_list s c)) else None)"
  by (simp add: character_frequency_map_def freq_loop_count)

text \<open>
  C9. The record of \<open>analyze_string\<close> is consistent: the counts of the frequency map
  add up to \<open>length\<close>, its keys are the distinct characters of the string, each once,
  and so their number is \<open>unique_characters\<close>.
\<close>

theorem frequency_map_consistent:
  "sum_list (map snd (p_character_frequency_map (r_properties (analyze_string U hexdigest now s))))
     = p_length (r_properties (analyze_string U hexdigest now s))
   \<and> set (map fst (p_character_frequency_map (r_properties (analyze_string U hexdigest now s))))
       = set s
   \<and> distinct (map fst (p_character_frequency_map (r_properties (analyze_string U hexdigest now s))))
   \<and> int (length (p_character_frequency_map (r_properties (analyze_string U hexdigest now s))))
       = p_unique_characters (r_properties (analyze_string U hexdigest now s))"
proof -
  let ?m = "character_frequency_map s"
  have inv: "distinct (map fst ?m) \<and> fst ` set ?m = set s \<and> sum_list (map snd ?m) = int (length s)"
    using freq_loop_inv [of "[]" s] by (simp add: character_frequency_map_def)
  from inv have "card (set (map fst ?m)) = length (map fst ?m)"
    by (intro distinct_card) simp
  moreover from inv have "set (map fst ?m) = set s" by simp
  ultimately have "length ?m = card (set s)" by simp
  with inv show ?thesis by (simp add: analyze_string_def Let_def)
qed

subsection \<open>Length, words and distinct characters\<close>

lemma count_starts_index:
  "length (filter (\<lambda>i. \<not> isspace U (s ! i) \<and> (if i = 0 then b else isspace U (s ! (i - 1))))
             [0..<length s]) = count_starts U b s"
proof (induction s arbitrary: b)
  case Nil
  then show ?case by simp
next
  case (Cons c cs)
  have u: "[0..<length (c # cs)] = 0 # map Suc [0..<length cs]"
    by (simp add: upt_conv_Cons map_Suc_upt del: upt_Suc)
  have "length (filter (\<lambda>i. \<not> isspace U ((c # cs) ! i)
                 \<and> (if i = 0 then b else isspace U ((c # cs) ! (i - 1))))
             (map Suc [0..<length cs]))
        = length (filter (\<lambda>i. \<not> isspace U (cs ! i)
                 \<and> (if i = 0 then isspace U c else isspace U (cs ! (i - 1))))
             [0..<length cs])"
    unfolding filter_map length_map
    by (rule arg_cong [where f = length], rule filter_cong) (auto simp: nth_Cons')
  also have "\<dots> = count_starts U (isspace U c) cs" by (rule Cons.IH)
  finally show ?case unfolding u by simp
qed

lemma token_starts_count: "length (token_starts U s) = count_starts U True s"
proof -
  have "token_starts U s =
      filter (\<lambda>i. \<not> isspace U (s ! i) \<and> (if i = 0 then True else isspace U (s ! (i - 1))))
        [0..<length s]"
    unfolding token_starts_def by (rule filter_cong) auto
  then show ?thesis by (simp only: count_starts_index)
qed

lemma count_starts_skip_space:
  "count_starts U True (dropWhile (isspace U) s) = count_starts U True s"
  by (induction s) simp_all

lemma count_starts_skip_token:
  "count_starts U True (dropWhile (\<lambda>x. \<not> isspace U x) cs) = count_starts U False cs"
  by (induction cs) simp_all

lemma length_split: "length (split U s) = count_starts U True s"
proof (induction U s rule: split.induct)
  case (1 U s)
  show ?case
  proof (cases "dropWhile (isspace U) s")
    case Nil
    have "count_starts U True s = count_starts U True (dropWhile (isspace U) s)"
      by (simp only: count_starts_skip_space)
    also have "\<dots> = 0" by (simp only: Nil count_starts.simps)
    finally have z: "count_starts U True s = 0" .
    have "split U s = []" by (subst split.simps) (simp only: Nil list.case)
    with z show ?thesis by simp
  next
    case (Cons c cs)
    then have c: "\<not> isspace U c" using hd_dropWhile [of "isspace U" s] by simp
    have "split U s = takeWhile (\<lambda>x. \<not> isspace U x) (c # cs)
                        # split U (dropWhile (\<lambda>x. \<not> isspace U x) (c # cs))"
      by (subst split.simps) (simp only: Cons list.case)
    then have "length (split U s) = Suc (length (split U (dropWhile (\<lambda>x. \<not> isspace U x) (c # cs))))"
      by simp
    also have "\<dots> = Suc (count_starts U True (dropWhile (\<lambda>x. \<not> isspace U x) (c # cs)))"
      using "1.IH" [OF Cons] by simp
    also have "\<dots> = Suc (count_starts U False cs)"
      using c by (simp add: count_starts_skip_token)
    also have "\<dots> = count_starts U True (c # cs)" using c by simp
    also have "\<dots> = count_starts U True s"
      using count_starts_skip_space [of U s] Cons by simp
    finally show ?thesis .
  qed
qed

text \<open>
  C8. \<open>length\<close> is the number of characters (code points) of the string, \<open>word_count\<close>
  is the number of its maximal runs of characters that are not whitespace (0 for the
  empty string), and \<open>unique_characters\<close> is the number of distinct characters of the
  string as given, neither lower-cased nor cleaned.
\<close>

theorem analyze_counts:
  "p_length (r_properties (analyze_string U hexdigest now s)) = int (length s)
   \<and> p_word_count (r_properties (analyze_string U hexdigest now s)) = int (length (token_starts U s))
   \<and> p_word_count (r_properties (analyze_string U hexdigest now [])) = 0
   \<and> p_unique_characters (r_properties (analyze_string U hexdigest now s)) = int (card (set s))"
  by (simp add: analyze_string_def Let_def length_split token_starts_count)

text \<open>The examples of the specification, and a string where case and the blank count.\<close>

lemma analyze_hello_world:
  "p_length (r_properties (analyze_string U hexdigest now (of_ascii ''hello world''))) = 11
   \<and> p_word_count (r_properties (analyze_string U hexdigest now (of_ascii ''hello world''))) = 2
   \<and> p_unique_characters (r_properties (analyze_string U hexdigest now (of_ascii ''Aa a''))) = 3"
  by (simp add: analyze_string_def Let_def of_ascii_def split.simps isspace_def card_insert_if)

section \<open>Properties of the endpoints\<close>

lemma loop_filter:
  "get_all_strings_loop q acc rs = acc @ filter (\<lambda>r. matches_spec r q) rs"
  by (induction rs arbitrary: acc) (auto simp: matches_spec_def Let_def split: option.splits)

text \<open>
  C2. For every list of records and every predicate the filtering loop of
  \<open>get_all_strings\<close> returns exactly the records that satisfy every present field of
  the predicate, in the order of the input; so does the endpoint on the values of the
  store. With the empty predicate every record is returned.
\<close>

theorem get_all_strings_filter:
  "get_all_strings_loop q [] records = filter (\<lambda>r. matches_spec r q) records
   \<and> data (get_all_strings store q) = filter (\<lambda>r. matches_spec r q) (map snd store)
   \<and> get_all_strings_loop empty_filters [] records = records"
  by (simp add: loop_filter get_all_strings_def Let_def matches_spec_def empty_filters_def)

text \<open>
  C6. When the id of the string is already a key of the store, \<open>create_string\<close> raises
  the conflict (status 409) and leaves the store as it was, so the object stored under
  that id is unchanged.
\<close>

theorem create_string_conflict:
  "exists (sha256_hash hexdigest value) store \<Longrightarrow>
   create_string U hexdigest now store value
     = (Inl (HTTPException 409 ''String already exists in the system''), store)"
  by (simp add: create_string_def Let_def)

theorem create_string_conflict_witness:
  "exists (sha256_hash (\<lambda>s. s) (of_ascii ''abc''))
     [(of_ascii ''abc'', analyze_string ascii_db (\<lambda>s. s) [] (of_ascii ''abc''))]
   \<and> create_string ascii_db (\<lambda>s. s) (of_ascii ''later'')
       [(of_ascii ''abc'', analyze_string ascii_db (\<lambda>s. s) [] (of_ascii ''abc''))]
       (of_ascii ''abc'')
     = (Inl (HTTPException 409 ''String already exists in the system''),
        [(of_ascii ''abc'', analyze_string ascii_db (\<lambda>s. s) [] (of_ascii ''abc''))])"
  using create_string_conflict [of "\<lambda>s. s" "of_ascii ''abc''"
      "[(of_ascii ''abc'', analyze_string ascii_db (\<lambda>s. s) [] (of_ascii ''abc''))]"
      ascii_db "of_ascii ''later''"]
  by (simp add: exists_def sha256_hash_def)

text \<open>
  C7. Saving \<open>analyze_string s\<close> under the key \<open>sha256_hash s\<close> and reading that key back
  gives an object whose \<open>value\<close> is \<open>s\<close>; through the endpoints, a successful
  \<open>create_string\<close> followed by \<open>get_string\<close> returns that object.
\<close>

theorem round_trip:
  "map_option r_value
      (get_object (sha256_hash hexdigest s)
         (save_object (sha256_hash hexdigest s) (analyze_string U hexdigest now s) store)) = Some s
   \<and> r_value (analyze_string U hexdigest now s) = s
   \<and> (\<not> exists (sha256_hash hexdigest s) store \<longrightarrow>
        (case create_string U hexdigest now store s of
           (created, store') \<Rightarrow>
             created = Inr (analyze_string U hexdigest now s)
             \<and> get_string hexdigest store' s = Inr (Some (analyze_string U hexdigest now s))))"
  by (simp add: get_object_def save_object_def update_conv' analyze_string_def Let_def
        create_string_def get_string_def exists_def dom_update)

theorem round_trip_witness:
  "\<not> exists (sha256_hash (\<lambda>s. s) (of_ascii ''get me'')) []
   \<and> map_option r_value
       (get_object (sha256_hash (\<lambda>s. s) (of_ascii ''get me''))
          (save_object (sha256_hash (\<lambda>s. s) (of_ascii ''get me''))
             (analyze_string ascii_db (\<lambda>s. s) [] (of_ascii ''get me'')) []))
       = Some (of_ascii ''get me'')
   \<and> get_string (\<lambda>s. s)
       (snd (create_string ascii_db (\<lambda>s. s) [] [] (of_ascii ''get me''))) (of_ascii ''get me'')
       = Inr (Some (analyze_string ascii_db (\<lambda>s. s) [] (of_ascii ''get me'')))"
  using round_trip [of "\<lambda>s. s" "of_ascii ''get me''" ascii_db "[]" "[]"]
  by (simp add: exists_def split: prod.splits)

section \<open>Properties of the query parser\<close>

lemma longer_than_at_Some:
  assumes "longer_than_at U s = Some g"
  shows "g \<noteq> [] \<and> list_all (isdecimal U) g
         \<and> s = of_ascii ''longer than '' @ g @ dropWhile (isdecimal U) (drop 12 s)"
proof -
  from assms have p: "prefix (of_ascii ''longer than '') s"
    and t: "takeWhile (isdecimal U) (drop 12 s) = g" and n: "g \<noteq> []"
    by (auto simp: longer_than_at_def split: if_splits list.splits)
  from p obtain r where r: "s = of_ascii ''longer than '' @ r" by (auto simp: prefix_def)
  have l: "length (of_ascii ''longer than '') = 12" by (simp add: of_ascii_def)
  from r l have d: "drop 12 s = r" by simp
  have "r = g @ dropWhile (isdecimal U) r" using t d by (metis takeWhile_dropWhile_id)
  moreover have "list_all (isdecimal U) g"
    using t by (auto simp: list_all_iff dest: set_takeWhileD)
  ultimately show ?thesis using n r d by simp
qed

lemma search_longer_than_Some:
  "search_longer_than U s = Some g \<Longrightarrow> g \<noteq> [] \<and> list_all (isdecimal U) g"
proof (induction s)
  case Nil
  then show ?case by (simp add: longer_than_at_Some)
next
  case (Cons c cs)
  then show ?case by (auto simp: longer_than_at_Some split: option.splits)
qed

lemma foldl_digits_nonneg:
  "0 \<le> acc \<Longrightarrow> 0 \<le> foldl (\<lambda>acc c. acc * 10 + int (the (decimal U c))) acc s"
  by (induction s arbitrary: acc) simp_all

text \<open>
  On a group of \<open>\d+\<close>, \<open>int\<close> raises exactly when the group is longer than the limit;
  otherwise the number is not negative.
\<close>

lemma py_int_digits:
  "g \<noteq> [] \<Longrightarrow> list_all (isdecimal U) g \<Longrightarrow>
   (if int_max_str_digits < length g then py_int U g = Inl ValueError
    else \<exists>n. py_int U g = Inr n \<and> 0 \<le> n)"
  by (simp add: py_int_def foldl_digits_nonneg)

lemma re_a_to_z_letter: "g \<in> set (re_a_to_z s) \<Longrightarrow> \<exists>x. g = [x] \<and> 97 \<le> x \<and> x \<le> 122"
  by (auto simp: re_a_to_z_def split: list.splits if_splits)

lemma letter_at_letter: "g \<in> set (letter_at U s) \<Longrightarrow> \<exists>x. g = [x] \<and> 97 \<le> x \<and> x \<le> 122"
  unfolding letter_at_def by (auto simp: List.bind_def dest: re_a_to_z_letter)

lemma search_letter_Some:
  "search_letter U s = Some g \<Longrightarrow> \<exists>x. g = [x] \<and> 97 \<le> x \<and> x \<le> 122"
proof (induction s)
  case Nil
  then have "g \<in> set (letter_at U [])" by (simp split: list.splits)
  then show ?case by (rule letter_at_letter)
next
  case (Cons c cs)
  show ?case
  proof (cases "letter_at U (c # cs)")
    case Nil
    with Cons show ?thesis by simp
  next
    case (Cons h t)
    with Cons.prems have "g \<in> set (letter_at U (c # cs))" by simp
    then show ?thesis by (rule letter_at_letter)
  qed
qed

lemma palindromic_palindrom:
  "sublist (of_ascii ''palindromic'') q \<Longrightarrow> sublist (of_ascii ''palindrom'') q"
proof -
  have "sublist (of_ascii ''palindrom'') (of_ascii ''palindromic'')"
    by (simp add: of_ascii_def sublist_code)
  then show "sublist (of_ascii ''palindromic'') q \<Longrightarrow> sublist (of_ascii ''palindrom'') q"
    by (rule sublist_order.order_trans)
qed

text \<open>
  The parser as one expression over the outcomes of its tests on the normalized
  query: it raises when the group of \<open>longer than (\d+)\<close> exceeds the limit of \<open>int\<close>,
  and otherwise returns a dictionary in which each field depends on its own rule only.
\<close>

lemma parse_natural_language_raises:
  "digit_limit_exceeded U (strip U (lower U query)) \<Longrightarrow>
   parse_natural_language U query = Inl ValueError"
proof -
  assume "digit_limit_exceeded U (strip U (lower U query))"
  then obtain g where g: "search_longer_than U (strip U (lower U query)) = Some g"
    and l: "int_max_str_digits < length g"
    by (auto simp: digit_limit_exceeded_def split: option.splits)
  from g have "g \<noteq> []" "list_all (isdecimal U) g"
    using search_longer_than_Some by blast+
  with l have "py_int U g = Inl ValueError"
    using py_int_digits [of g U] by simp
  with g show ?thesis by (simp add: parse_natural_language_def Let_def)
qed

lemma parse_natural_language_eq:
  "\<not> digit_limit_exceeded U (strip U (lower U query)) \<Longrightarrow>
   \<exists>n. (search_longer_than U (strip U (lower U query)) = None
         \<or> (\<exists>g. search_longer_than U (strip U (lower U query)) = Some g
                \<and> py_int U g = Inr n \<and> 0 \<le> n)) \<and>
    parse_natural_language U query =
      Inr \<lparr>f_is_palindrome =
             (if sublist (of_ascii ''palindrom'') (strip U (lower U query)) then Some True
              else None),
           f_min_length =
             (if search_longer_than U (strip U (lower U query)) = None then None
              else Some (n + 1)),
           f_max_length = None,
           f_word_count =
             (if sublist (of_ascii ''single word'') (strip U (lower U query))
                 \<or> sublist (of_ascii ''one word'') (strip U (lower U query)) then Some 1
              else if sublist (of_ascii ''two word'') (strip U (lower U query)) then Some 2
              else None),
           f_contains_character =
             (if sublist (of_ascii ''first vowel'') (strip U (lower U query))
              then Some (of_ascii ''a'')
              else search_letter U (strip U (lower U query)))\<rparr>"
proof (cases "search_longer_than U (strip U (lower U query))")
  case None
  then show ?thesis
    using palindromic_palindrom [of "strip U (lower U query)"]
    by (cases "search_letter U (strip U (lower U query))")
       (simp_all add: parse_natural_language_def Let_def empty_filters_def)
next
  case (Some g)
  assume "\<not> digit_limit_exceeded U (strip U (lower U query))"
  with Some have l: "\<not> int_max_str_digits < length g"
    by (simp add: digit_limit_exceeded_def)
  from Some have "g \<noteq> []" "list_all (isdecimal U) g"
    using search_longer_than_Some by blast+
  with l obtain n where n: "py_int U g = Inr n" "0 \<le> n"
    using py_int_digits [of g U] by auto
  with Some show ?thesis
    using palindromic_palindrom [of "strip U (lower U query)"]
    by (cases "search_letter U (strip U (lower U query))")
       (auto simp add: parse_natural_language_def Let_def empty_filters_def)
qed





subsection \<open>The rule for \<open>longer than\<close>\<close>











subsection \<open>Failure, the empty dictionary, range and the rules\<close>







text \<open>
  C10. The range of the parser, for every query on which it returns: \<open>is_palindrome\<close> is
  absent or \<open>True\<close>, \<open>max_length\<close> is absent, \<open>word_count\<close> is absent, 1 or 2, \<open>min_length\<close>
  when present is at least 1, and \<open>contains_character\<close> when present is one character
  between \<open>a\<close> and \<open>z\<close>.
\<close>

theorem parse_range:
  "case parse_natural_language U query of
     Inl e \<Rightarrow> True
   | Inr p \<Rightarrow>
       (f_is_palindrome p = None \<or> f_is_palindrome p = Some True)
       \<and> f_max_length p = None
       \<and> (f_word_count p = None \<or> f_word_count p = Some 1 \<or> f_word_count p = Some 2)
       \<and> (case f_min_length p of None \<Rightarrow> True | Some n \<Rightarrow> 1 \<le> n)
       \<and> (case f_contains_character p of
             None \<Rightarrow> True
           | Some c \<Rightarrow> length c = 1 \<and> list_all (\<lambda>x. 97 \<le> x \<and> x \<le> 122) c)"
proof (cases "digit_limit_exceeded U (strip U (lower U query))")
  case True
  then show ?thesis using parse_natural_language_raises [of U query] by simp
next
  case False
  have c: "length c = 1 \<and> list_all (\<lambda>x. 97 \<le> x \<and> x \<le> 122) c"
    if "search_letter U (strip U (lower U query)) = Some c" for c
    using search_letter_Some [OF that] by auto
  show ?thesis
    using parse_natural_language_eq [OF False] c
    by (auto simp: of_ascii_def split: option.splits)
qed

theorem parse_range_witness:
  "parse_natural_language ascii_db
      (of_ascii ''Palindromic single word strings longer than 0 containing the letter z'')
    = Inr \<lparr>f_is_palindrome = Some True, f_min_length = Some 1, f_max_length = None,
           f_word_count = Some 1, f_contains_character = Some (of_ascii ''z'')\<rparr>"
  using parse_range [of ascii_db "of_ascii ''Palindromic single word strings longer than 0 containing the letter z''"]
  by (simp add: parse_natural_language_def of_ascii_def lower_def strip_def ascii_lower_def
          isspace_def Let_def longer_than_at_def letter_at_def re_lit_def sublist_code
          py_int_def int_max_str_digits_def isdecimal_def decimal_def re_opt_def re_a_to_z_def
          empty_filters_def)




text \<open>
  Of two phrases \<open>longer than <integer>\<close> the search finds the first: here the second
  one has the integer 10, and \<open>min_length\<close> is 5 + 1.
\<close>

lemma longer_than_first_match_example:
  "parse_natural_language ascii_db (of_ascii ''longer than 5 or longer than 10'')
       = Inr (empty_filters\<lparr>f_min_length := Some 6\<rparr>)"
  by (simp add: parse_natural_language_def of_ascii_def lower_def strip_def ascii_lower_def
          isspace_def Let_def longer_than_at_def letter_at_def re_lit_def sublist_code
          py_int_def int_max_str_digits_def isdecimal_def decimal_def)

end
